theory Spec2Isabelle
  imports Main
begin

section \<open>Data model\<close>

text \<open>
  The client consists of the root component \<open>App\<close> (session gating, the transaction
  notifier, the handlers that call the contract) and the feed component \<open>Overview\<close>
  (deed fetch, row partition, per-deed credit button). JavaScript strings are modelled
  as \<open>string\<close>; a value that may be \<open>null\<close> or \<open>undefined\<close> is an \<open>option\<close>.
\<close>

text \<open>\<open>currentUser\<close>: the wallet identity (\<open>App.propTypes\<close>, \<open>Overview.propTypes\<close>).\<close>

record identity =
  accountId :: string
  balance :: string

text \<open>
  A deed as \<open>social_deeds\<close> returns it and as \<open>Overview\<close> reads it. The fields \<open>id\<close>
  and \<open>proof\<close> of the source are named \<open>deed_id\<close> and \<open>proof_url\<close> here.
\<close>

record deed =
  deed_id :: nat
  author :: string
  title :: string
  description :: string
  proof_url :: string
  creditors :: nat
  is_creditor :: bool

text \<open>The component state of \<open>App\<close>: \<open>useState('')\<close> and \<open>useState(false)\<close>.\<close>

record app_state =
  message :: string
  registered :: bool

definition initial_state :: app_state where
  "initial_state = \<lparr>message = [], registered = False\<rparr>"

text \<open>
  The status of a promise returned by a remote call at the moment the component is
  observed: not settled yet, fulfilled with a value, or rejected.
\<close>

datatype 'a promise = Pending | Resolved 'a | Rejected

datatype js_error = TypeError | URIError | RemoteRejection

text \<open>
  JSON values sent to the contract, and one call of a contract method: its name, its
  argument object (field by field, in source order) and, for a change method, the gas
  and the attached deposit (both decimal strings).
\<close>

datatype jsval = JString string | JNumber nat | JNaN

record call =
  method_name :: string
  args :: "(string \<times> jsval) list"
  gas :: "string option"
  deposit :: "string option"

text \<open>
  The contract handle, as far as \<open>App\<close> and \<open>Overview\<close> read from it: what each view
  method answers. \<open>get_deeds_count\<close> takes no argument; the answer of \<open>social_deeds\<close>
  may depend on its argument object and is not tied to the count, since the ledger can
  change between the two reads.
\<close>

record contract =
  is_registered :: "string \<Rightarrow> bool promise"
  get_deeds_count :: "nat promise"
  social_deeds :: "(string \<times> jsval) list \<Rightarrow> deed list promise"

section \<open>Session gating (\<open>App\<close>)\<close>

text \<open>
  The effect \<open>fetchRegistered\<close>: \<open>setRegistered\<close> runs only after
  \<open>contract.is_registered\<close> has fulfilled. A rejection, and the \<open>TypeError\<close> of
  reading \<open>currentUser.accountId\<close> on a null user, reject the promise of the async
  function; nothing handles it, so the state stays as it was. The second component is
  that unhandled rejection.
\<close>

definition fetchRegistered ::
    "contract \<Rightarrow> identity option \<Rightarrow> app_state \<Rightarrow> app_state \<times> js_error option" where
  "fetchRegistered contract currentUser st =
     (case currentUser of
        None \<Rightarrow> (st, Some TypeError)
      | Some u \<Rightarrow>
          (case is_registered contract (accountId u) of
             Pending \<Rightarrow> (st, None)
           | Resolved isRegistered \<Rightarrow> (st\<lparr>registered := isRegistered\<rparr>, None)
           | Rejected \<Rightarrow> (st, Some RemoteRejection)))"

text \<open>The routes of \<open>App\<close> and the elements they can render.\<close>

datatype route = IndexRoute | PublishRoute | OverviewRoute | DonateRoute | WildcardRoute

datatype view =
    SignInView | RegisterView | DashboardView | PublishView | OverviewView | DonateView
  | NotFoundView

text \<open>The \<open>element\<close> of each \<open>Route\<close>, one equation per route as in the source.\<close>

fun route_element :: "route \<Rightarrow> identity option \<Rightarrow> bool \<Rightarrow> view" where
  "route_element IndexRoute currentUser reg =
     (if currentUser \<noteq> None
      then (if reg then DashboardView else RegisterView)
      else SignInView)"
| "route_element PublishRoute currentUser reg =
     (if currentUser \<noteq> None
      then (if reg then PublishView else RegisterView)
      else SignInView)"
| "route_element OverviewRoute currentUser reg =
     (if currentUser \<noteq> None
      then (if reg then OverviewView else RegisterView)
      else SignInView)"
| "route_element DonateRoute currentUser reg =
     (if currentUser \<noteq> None
      then (if reg then DonateView else RegisterView)
      else SignInView)"
| "route_element WildcardRoute currentUser reg = NotFoundView"

definition render :: "route \<Rightarrow> identity option \<Rightarrow> app_state \<Rightarrow> view" where
  "render r currentUser st = route_element r currentUser (registered st)"

text \<open>The protected routes are the four that gate on the session.\<close>

definition protected :: "route \<Rightarrow> bool" where
  "protected r = (r \<noteq> WildcardRoute)"

text \<open>The three branches of the dispatch, and the branch a view belongs to.\<close>

datatype branch = SignInBranch | RegisterBranch | ContentBranch

fun content_view :: "route \<Rightarrow> view" where
  "content_view IndexRoute = DashboardView"
| "content_view PublishRoute = PublishView"
| "content_view OverviewRoute = OverviewView"
| "content_view DonateRoute = DonateView"
| "content_view WildcardRoute = NotFoundView"

fun branch_of :: "view \<Rightarrow> branch option" where
  "branch_of SignInView = Some SignInBranch"
| "branch_of RegisterView = Some RegisterBranch"
| "branch_of NotFoundView = None"
| "branch_of v = Some ContentBranch"

section \<open>Numbers and strings of the runtime\<close>

text \<open>
  The decimal digits of a natural number, most significant first. This is what
  \<open>big.js\<close> prints for an integer of any size, and what \<open>ToString\<close> prints for a Number
  that is an integer below \<open>2^53\<close>. From \<open>2^53\<close> on \<open>ToString\<close> prints the shortest
  digits that denote the same Number, and from \<open>10^21\<close> on exponent notation; neither is
  modelled, so nothing here renders such a Number.
\<close>

definition digit_char :: "nat \<Rightarrow> char" where
  "digit_char d = char_of (48 + d)"

fun decimal_digits :: "nat \<Rightarrow> string" where
  "decimal_digits n = (if n < 10 then [digit_char n] else decimal_digits (n div 10) @ [digit_char (n mod 10)])"

declare decimal_digits.simps [simp del]

text \<open>
  \<open>parseInt\<close> on a string reads the longest prefix of decimal digits and answers \<open>NaN\<close>
  (here \<open>None\<close>) when there is none. Leading white space, a sign and the \<open>0x\<close> prefix,
  which \<open>parseInt\<close> also accepts, do not occur in the \<open>ToString\<close> of a non-negative
  integer and are not modelled. \<open>parseInt(count)\<close> on a Number first applies \<open>ToString\<close>
  and reads the digits back. Below \<open>2^53\<close> these are the decimal digits, as here; from
  there up to \<open>10^21\<close> they are the shortest digits that denote the same Number, so
  reading them back gives the same Number as reading the decimal digits does. The
  theorem about the count carries the bound \<open>10^21\<close>.
\<close>

definition is_digit :: "char \<Rightarrow> bool" where
  "is_digit c = (48 \<le> (of_char c :: nat) \<and> (of_char c :: nat) \<le> 57)"

definition digit_value :: "char \<Rightarrow> nat" where
  "digit_value c = of_char c - 48"

definition digits_value :: "string \<Rightarrow> nat" where
  "digits_value ds = foldl (\<lambda>acc c. 10 * acc + digit_value c) 0 ds"

definition parseInt_string :: "string \<Rightarrow> nat option" where
  "parseInt_string s =
     (let ds = takeWhile is_digit s in if ds = [] then None else Some (digits_value ds))"

definition parseInt :: "nat \<Rightarrow> nat option" where
  "parseInt n = parseInt_string (decimal_digits n)"

text \<open>
  \<open>big.js\<close> decimals that are not negative: \<open>Big m e\<close> stands for \<open>m * 10^e\<close>.
  \<open>times\<close> is exact; \<open>toFixed()\<close> prints normal notation, with a fraction part only
  when the value is not an integer, and without trailing zeros in it.
\<close>

datatype big = Big nat int

fun times :: "big \<Rightarrow> big \<Rightarrow> big" where
  "times (Big m e) (Big n f) = Big (m * n) (e + f)"

definition fraction_digits :: "nat \<Rightarrow> nat \<Rightarrow> string" where
  "fraction_digits k fp =
     (let ds = decimal_digits fp; padded = replicate (k - length ds) (CHR ''0'') @ ds
      in rev (dropWhile (\<lambda>c. c = CHR ''0'') (rev padded)))"

fun toFixed :: "big \<Rightarrow> string" where
  "toFixed (Big m e) =
     (if 0 \<le> e then decimal_digits (m * 10 ^ nat e)
      else (let k = nat (- e); ip = m div 10 ^ k; fp = m mod 10 ^ k
            in if fp = 0 then decimal_digits ip
               else decimal_digits ip @ [CHR ''.''] @ fraction_digits k fp))"

text \<open>
  \<open>decodeURI\<close> (ECMAScript \<open>Decode\<close> with the reserved set \<open>;/?:@&=+$,#\<close>), on strings
  read as UTF-8 bytes. An escape \<open>%XX\<close> of an ASCII character is replaced by the
  character unless it is reserved; an escape that starts a multi-byte UTF-8 sequence
  must be followed by the escapes of its continuation bytes and the octets must be
  well-formed UTF-8; every other \<open>%\<close> throws \<open>URIError\<close>.
\<close>

definition hex_value :: "char \<Rightarrow> nat option" where
  "hex_value c =
     (let n = (of_char c :: nat)
      in if 48 \<le> n \<and> n \<le> 57 then Some (n - 48)
         else if 65 \<le> n \<and> n \<le> 70 then Some (n - 55)
         else if 97 \<le> n \<and> n \<le> 102 then Some (n - 87)
         else None)"

definition parseHexOctet :: "char \<Rightarrow> char \<Rightarrow> nat option" where
  "parseHexOctet h l =
     (case hex_value h of
        None \<Rightarrow> None
      | Some a \<Rightarrow> (case hex_value l of None \<Rightarrow> None | Some b \<Rightarrow> Some (16 * a + b)))"

text \<open>The number of leading 1 bits of an octet; 5 stands for five or more.\<close>

definition leading_ones :: "nat \<Rightarrow> nat" where
  "leading_ones b =
     (if b < 128 then 0 else if b < 192 then 1 else if b < 224 then 2
      else if b < 240 then 3 else if b < 248 then 4 else 5)"

definition reservedURISet :: string where
  "reservedURISet = '';/?:@&=+$,#''"

text \<open>The octets of \<open>k\<close> escapes \<open>%XX\<close> at the front of a string, if they are there.\<close>

fun escapes :: "nat \<Rightarrow> string \<Rightarrow> nat list option" where
  "escapes 0 s = Some []"
| "escapes (Suc k) (p # h # l # s) =
     (if p = CHR ''%''
      then (case parseHexOctet h l of
              None \<Rightarrow> None
            | Some b \<Rightarrow> map_option ((#) b) (escapes k s))
      else None)"
| "escapes (Suc k) s = None"

definition continuation :: "nat \<Rightarrow> bool" where
  "continuation b = (128 \<le> b \<and> b < 192)"

text \<open>Well-formed UTF-8 sequences of two to four octets (Unicode, table 3-7).\<close>

fun valid_utf8 :: "nat list \<Rightarrow> bool" where
  "valid_utf8 [a, b] = (194 \<le> a \<and> a \<le> 223 \<and> continuation b)"
| "valid_utf8 [a, b, c] =
     ((a = 224 \<and> 160 \<le> b \<and> b \<le> 191
       \<or> 225 \<le> a \<and> a \<le> 236 \<and> continuation b
       \<or> a = 237 \<and> 128 \<le> b \<and> b \<le> 159
       \<or> 238 \<le> a \<and> a \<le> 239 \<and> continuation b)
      \<and> continuation c)"
| "valid_utf8 [a, b, c, d] =
     ((a = 240 \<and> 144 \<le> b \<and> b \<le> 191
       \<or> 241 \<le> a \<and> a \<le> 243 \<and> continuation b
       \<or> a = 244 \<and> 128 \<le> b \<and> b \<le> 143)
      \<and> continuation c \<and> continuation d)"
| "valid_utf8 octets = False"

text \<open>The loop of \<open>Decode\<close>: the input still to read, and the result \<open>R\<close> so far.\<close>

fun decode :: "string \<Rightarrow> string \<Rightarrow> js_error + string" where
  "decode [] R = Inr R"
| "decode (c # s) R =
     (if c \<noteq> CHR ''%'' then decode s (R @ [c])
      else (case s of
              h # l # s' \<Rightarrow>
                (case parseHexOctet h l of
                   None \<Rightarrow> Inl URIError
                 | Some b \<Rightarrow>
                     (if leading_ones b = 0
                      then (if char_of b \<in> set reservedURISet
                            then decode s' (R @ [c, h, l])
                            else decode s' (R @ [char_of b]))
                      else if leading_ones b = 1 \<or> 4 < leading_ones b then Inl URIError
                      else (case escapes (leading_ones b - 1) s' of
                              None \<Rightarrow> Inl URIError
                            | Some octets \<Rightarrow>
                                (if valid_utf8 (b # octets)
                                 then decode (drop (3 * (leading_ones b - 1)) s')
                                        (R @ map char_of (b # octets))
                                 else Inl URIError))))
            | _ \<Rightarrow> Inl URIError))"

definition decodeURI :: "string \<Rightarrow> js_error + string" where
  "decodeURI s = decode s []"

section \<open>Navigation state of the browser\<close>

text \<open>
  A URL as \<open>window.location\<close> exposes it: origin, path, the decoded query parameters in
  order, and the fragment. The session history is the list of entries before the
  current one (most recent first) and the current entry; each entry carries its state
  object (its fields, \<open>{}\<close> being the empty list) and its URL.
\<close>

record url =
  origin :: string
  pathname :: string
  search :: "(string \<times> string) list"
  hash :: string

record history_entry =
  state_object :: "(string \<times> string) list"
  entry_url :: url

record window =
  back_entries :: "history_entry list"
  current_entry :: history_entry

definition location :: "window \<Rightarrow> url" where
  "location w = entry_url (current_entry w)"

text \<open>
  The URL that the string \<open>window.location.origin + window.location.pathname\<close>
  denotes: same origin and path, no query and no fragment.
\<close>

definition origin_pathname :: "url \<Rightarrow> url" where
  "origin_pathname l = \<lparr>origin = origin l, pathname = pathname l, search = [], hash = []\<rparr>"

text \<open>\<open>history.pushState(state, title, url)\<close> adds an entry after the current one.\<close>

definition pushState :: "(string \<times> string) list \<Rightarrow> url \<Rightarrow> window \<Rightarrow> window" where
  "pushState st u w =
     \<lparr>back_entries = current_entry w # back_entries w,
      current_entry = \<lparr>state_object = st, entry_url = u\<rparr>\<rparr>"

text \<open>\<open>location.replace(url)\<close> loads the URL in place of the current entry.\<close>

definition location_replace :: "url \<Rightarrow> window \<Rightarrow> window" where
  "location_replace u w = w\<lparr>current_entry := \<lparr>state_object = [], entry_url = u\<rparr>\<rparr>"

section \<open>Transaction notifier and sign-out (\<open>App\<close>)\<close>

text \<open>
  Truthiness of a prop that is a string, \<open>null\<close> or \<open>undefined\<close>: the empty string is
  falsy. \<open>js_string\<close> is the string a truthy prop stands for.
\<close>

definition truthy :: "string option \<Rightarrow> bool" where
  "truthy v = (case v of None \<Rightarrow> False | Some s \<Rightarrow> s \<noteq> [])"

definition js_string :: "string option \<Rightarrow> string" where
  "js_string v = (case v of None \<Rightarrow> ''undefined'' | Some s \<Rightarrow> s)"

text \<open>
  The effect on \<open>[lastTransaction, error]\<close>. \<open>decodeURI\<close> is evaluated before
  \<open>setMessage\<close> and \<open>pushState\<close>, so when it throws neither of them runs.
\<close>

definition notifier ::
    "string option \<Rightarrow> string option \<Rightarrow> app_state \<times> window \<Rightarrow> js_error + app_state \<times> window" where
  "notifier error lastTransaction s =
     (case s of (st, w) \<Rightarrow>
        if truthy error then
          (case decodeURI (js_string error) of
             Inl e \<Rightarrow> Inl e
           | Inr decoded \<Rightarrow>
               Inr (st\<lparr>message := decoded\<rparr>, pushState [] (origin_pathname (location w)) w))
        else if truthy lastTransaction then
          Inr (st\<lparr>message := ''Successfully executed transaction '' @ js_string lastTransaction\<rparr>,
               pushState [] (origin_pathname (location w)) w)
        else Inr (st, w))"

text \<open>
  What is retained after the effect: when it threw, neither the component state nor
  the navigation state was written.
\<close>

definition retained ::
    "app_state \<times> window \<Rightarrow> js_error + app_state \<times> window \<Rightarrow> app_state \<times> window" where
  "retained s r = (case r of Inl e \<Rightarrow> s | Inr s' \<Rightarrow> s')"

text \<open>
  \<open>signOut\<close>: the wallet drops its session (first component: signed in or not), then
  the page is loaded again at origin and path.
\<close>

definition signOut :: "bool \<times> window \<Rightarrow> bool \<times> window" where
  "signOut s = (case s of (signedIn, w) \<Rightarrow> (False, location_replace (origin_pathname (location w)) w))"

section \<open>Credit handler (\<open>App\<close>)\<close>

text \<open>
  \<open>BOATLOAD_OF_GAS = Big(3).times(10 ** 13).toFixed()\<close>; the deposit of a credit is
  \<open>Big('0.002').times(10 ** 24).toFixed()\<close>. The Numbers \<open>10 ** 13\<close> and \<open>10 ** 24\<close>
  enter \<open>big.js\<close> through their \<open>ToString\<close>, which denotes the exact power of ten.
\<close>

definition BOATLOAD_OF_GAS :: string where
  "BOATLOAD_OF_GAS = toFixed (times (Big 3 0) (Big (10 ^ 13) 0))"

definition credit_deposit :: string where
  "credit_deposit = toFixed (times (Big 2 (- 3)) (Big (10 ^ 24) 0))"

text \<open>
  \<open>onCredit\<close>: the calls made to the contract, and the component state afterwards.
  The promise of \<open>contract.credit\<close> only logs to the console when it fulfils. The
  template literal applies the runtime's \<open>ToString\<close> to \<open>deed.id\<close>; that conversion is
  the parameter \<open>idToString\<close>, so that nothing is assumed about how an id prints.
\<close>

definition onCredit :: "(nat \<Rightarrow> string) \<Rightarrow> deed \<Rightarrow> app_state \<Rightarrow> call list \<times> app_state" where
  "onCredit idToString d st =
     (if is_creditor d
      then ([], st\<lparr>message := ''You already credited deed #'' @ idToString (deed_id d)\<rparr>)
      else ([\<lparr>method_name = ''credit'', args = [(''id'', JNumber (deed_id d))],
               gas = Some BOATLOAD_OF_GAS, deposit = Some credit_deposit\<rparr>], st))"

section \<open>Feed (\<open>Overview\<close>)\<close>

text \<open>\<open>arr.slice(start, end)\<close> for indices that are not negative.\<close>

definition slice :: "'a list \<Rightarrow> nat \<Rightarrow> nat \<Rightarrow> 'a list" where
  "slice arr start end = drop start (take end arr)"

text \<open>
  The \<open>while\<close> loop of \<open>splitArrayIntoChunksOfLen\<close>, with its variables \<open>i\<close> and
  \<open>chunks\<close>. With \<open>len = 0\<close> the index never advances and the loop does not return,
  which is the value \<open>None\<close>.
\<close>

partial_function (option) chunk_loop ::
    "'a list \<Rightarrow> nat \<Rightarrow> nat \<Rightarrow> 'a list list \<Rightarrow> 'a list list option" where
  "chunk_loop arr len i chunks =
     (if i < length arr
      then chunk_loop arr len (i + len) (chunks @ [slice arr i (i + len)])
      else Some chunks)"

definition splitArrayIntoChunksOfLen :: "'a list \<Rightarrow> nat \<Rightarrow> 'a list list option" where
  "splitArrayIntoChunksOfLen arr len = chunk_loop arr len 0 []"

text \<open>
  The partition into rows of a given width, written as a recursion on the sequence:
  the reference that the loop is compared with.
\<close>

fun partition_rows :: "nat \<Rightarrow> 'a list \<Rightarrow> 'a list list" where
  "partition_rows w xs =
     (if w = 0 \<or> xs = [] then [] else take w xs # partition_rows w (drop w xs))"

declare partition_rows.simps [simp del]

text \<open>
  \<open>fetchData\<close>: the calls made, the state \<open>deeds\<close> afterwards and the unhandled
  rejection, if any. \<open>App\<close> mounts \<open>Overview\<close> only with a user that is not null.
  \<open>setDeeds\<close> runs only when both reads have fulfilled.
\<close>

definition count_call :: call where
  "count_call = \<lparr>method_name = ''get_deeds_count'', args = [], gas = None, deposit = None\<rparr>"

definition page_args :: "identity \<Rightarrow> nat \<Rightarrow> (string \<times> jsval) list" where
  "page_args currentUser count =
     [(''creditor_id'', JString (accountId currentUser)),
      (''from_index'', JString ''0''),
      (''limit'', (case parseInt count of None \<Rightarrow> JNaN | Some n \<Rightarrow> JNumber n))]"

definition page_call :: "identity \<Rightarrow> nat \<Rightarrow> call" where
  "page_call currentUser count =
     \<lparr>method_name = ''social_deeds'', args = page_args currentUser count, gas = None, deposit = None\<rparr>"

definition fetchData ::
    "contract \<Rightarrow> identity \<Rightarrow> deed list list \<Rightarrow> call list \<times> deed list list \<times> js_error option" where
  "fetchData contract currentUser deeds =
     (case get_deeds_count contract of
        Pending \<Rightarrow> ([count_call], deeds, None)
      | Rejected \<Rightarrow> ([count_call], deeds, Some RemoteRejection)
      | Resolved count \<Rightarrow>
          (case social_deeds contract (page_args currentUser count) of
             Pending \<Rightarrow> ([count_call, page_call currentUser count], deeds, None)
           | Rejected \<Rightarrow> ([count_call, page_call currentUser count], deeds, Some RemoteRejection)
           | Resolved result \<Rightarrow>
               (case splitArrayIntoChunksOfLen result 2 of
                  None \<Rightarrow> ([count_call, page_call currentUser count], deeds, None)
                | Some chunks \<Rightarrow> ([count_call, page_call currentUser count], chunks, None))))"

text \<open>
  The button in the \<open>card-action\<close> of a deed: its tooltip, its class and the deed its
  \<open>onClick\<close> passes to \<open>onCredit\<close> (none when the button has no handler).
\<close>

record button =
  tooltip :: string
  className :: string
  onClick :: "deed option"

definition credit_button :: "deed \<Rightarrow> identity \<Rightarrow> button" where
  "credit_button d currentUser =
     (if is_creditor d
      then \<lparr>tooltip = ''You already credited the author.'',
            className = ''margin_button disabled'', onClick = None\<rparr>
      else if author d = accountId currentUser
      then \<lparr>tooltip = ''You cannot credit yourself.'',
            className = ''margin_button disabled'', onClick = None\<rparr>
      else \<lparr>tooltip = ''Give a credit to the deed author.'',
            className = ''margin_button'', onClick = Some d\<rparr>)"

text \<open>
  The three credit decisions, and the decision a rendered button shows: each decision
  has its own tooltip.
\<close>

datatype CreditDecision = AlreadyCredited | SelfAuthored | Eligible

definition decision :: "button \<Rightarrow> CreditDecision option" where
  "decision b =
     (if tooltip b = ''You already credited the author.'' then Some AlreadyCredited
      else if tooltip b = ''You cannot credit yourself.'' then Some SelfAuthored
      else if tooltip b = ''Give a credit to the deed author.'' then Some Eligible
      else None)"

section \<open>Example inputs\<close>

text \<open>The concrete session, deeds, contracts and URLs at which the theorems are instantiated.\<close>

definition alice :: identity where
  "alice = \<lparr>accountId = ''alice'', balance = ''100''\<rparr>"

definition deed_of_bob :: deed where
  "deed_of_bob = \<lparr>deed_id = 7, author = ''bob'', title = ''Beach cleanup'', description = ''Two bags'',
     proof_url = ''https://example.org/beach.gif'', creditors = 3, is_creditor = False\<rparr>"

definition credited_deed_of_alice :: deed where
  "credited_deed_of_alice = \<lparr>deed_id = 8, author = ''alice'', title = ''Donation'', description = ''5 NEAR'',
     proof_url = ''https://example.org/donation.png'', creditors = 1, is_creditor = True\<rparr>"

text \<open>A ledger that counts five deeds and then answers with a page of four.\<close>

definition short_page :: "deed list" where
  "short_page = [deed_of_bob, credited_deed_of_alice, deed_of_bob\<lparr>deed_id := 9\<rparr>,
     deed_of_bob\<lparr>deed_id := 10\<rparr>]"

definition contract_answering :: "bool promise \<Rightarrow> contract" where
  "contract_answering p =
     \<lparr>is_registered = (\<lambda>account. p), get_deeds_count = Resolved 5,
      social_deeds = (\<lambda>page. Resolved short_page)\<rparr>"

text \<open>
  A page URL after a wallet redirect: a parameter of the application's own, the
  signal, and a fragment. Before it the history holds the wallet's page.
\<close>

definition redirect_window :: "(string \<times> string) list \<Rightarrow> window" where
  "redirect_window signal =
     \<lparr>back_entries = [\<lparr>state_object = [], entry_url =
          \<lparr>origin = ''https://wallet.testnet.near.org'', pathname = ''/sign'', search = [], hash = []\<rparr>\<rparr>],
      current_entry = \<lparr>state_object = [], entry_url =
          \<lparr>origin = ''https://deeds.example.org'', pathname = ''/overview'',
           search = (''lang'', ''en'') # signal, hash = ''top''\<rparr>\<rparr>\<rparr>"

text \<open>
  One way the page can read the two props from its URL: as the values of the query
  parameters \<open>errorMessage\<close> and \<open>transactionHashes\<close>.
\<close>

definition query_reader :: "url \<Rightarrow> string option \<times> string option" where
  "query_reader u = (map_of (search u) ''errorMessage'', map_of (search u) ''transactionHashes'')"

section \<open>Decimal strings: \<open>parseInt\<close> inverts \<open>ToString\<close>\<close>

lemma digit_char_is_digit: "d < 10 \<Longrightarrow> is_digit (digit_char d)"
  by (simp add: is_digit_def digit_char_def)

lemma digit_value_digit_char: "d < 10 \<Longrightarrow> digit_value (digit_char d) = d"
  by (simp add: digit_value_def digit_char_def)

lemma decimal_digits_are_digits: "\<forall>c \<in> set (decimal_digits n). is_digit c"
proof (induction n rule: decimal_digits.induct)
  case (1 n)
  show ?case
  proof (cases "n < 10")
    case True
    then show ?thesis by (subst decimal_digits.simps) (simp add: digit_char_is_digit)
  next
    case False
    with 1 show ?thesis by (subst decimal_digits.simps) (simp add: digit_char_is_digit)
  qed
qed

lemma decimal_digits_not_empty: "decimal_digits n \<noteq> []"
  by (subst decimal_digits.simps) simp

lemma digits_value_snoc: "digits_value (ds @ [c]) = 10 * digits_value ds + digit_value c"
  by (simp add: digits_value_def)

lemma digits_value_decimal_digits: "digits_value (decimal_digits n) = n"
proof (induction n rule: decimal_digits.induct)
  case (1 n)
  show ?case
  proof (cases "n < 10")
    case True
    then show ?thesis
      by (subst decimal_digits.simps) (simp add: digits_value_def digit_value_digit_char)
  next
    case False
    then have "digits_value (decimal_digits n) = 10 * digits_value (decimal_digits (n div 10)) + n mod 10"
      by (subst decimal_digits.simps) (simp add: digits_value_snoc digit_value_digit_char)
    with 1 False show ?thesis by simp
  qed
qed

lemma parseInt_decimal_digits: "parseInt n = Some n"
proof -
  have tw: "takeWhile is_digit (decimal_digits n) = decimal_digits n"
    by (simp add: decimal_digits_are_digits)
  show ?thesis
    unfolding parseInt_def parseInt_string_def tw
    by (simp add: decimal_digits_not_empty digits_value_decimal_digits)
qed

lemma digit_char_values:
  "digit_char 0 = CHR ''0''" "digit_char 1 = CHR ''1''" "digit_char 2 = CHR ''2''"
  "digit_char 3 = CHR ''3''" "digit_char 4 = CHR ''4''" "digit_char 5 = CHR ''5''"
  "digit_char 6 = CHR ''6''" "digit_char 7 = CHR ''7''" "digit_char 8 = CHR ''8''"
  "digit_char 9 = CHR ''9''"
  by code_simp+

section \<open>Session gating\<close>

lemma render_signed_out:
  "protected r \<Longrightarrow> render r None st = SignInView"
  by (cases r) (simp_all add: render_def protected_def)

lemma render_signed_in:
  "protected r \<Longrightarrow>
   render r (Some u) st = (if registered st then content_view r else RegisterView)"
  by (cases r) (simp_all add: render_def protected_def)

lemma branch_of_content:
  "protected r \<Longrightarrow> branch_of (content_view r) = Some ContentBranch"
  by (cases r) (simp_all add: protected_def)

lemma fetchRegistered_pending:
  "is_registered c (accountId u) = Pending \<Longrightarrow> fetchRegistered c (Some u) st = (st, None)"
  by (simp add: fetchRegistered_def)

text \<open>
  C1. On every protected route the rendered branch is the same function of the session:
  a null user renders the sign-in view; a user whose registration check has fulfilled
  with \<open>false\<close> renders the register view; a user whose check has fulfilled with
  \<open>true\<close> renders the content view of the route. The branch is one of the three and
  depends only on whether the user is null and on \<open>registered\<close>, whatever the route.
\<close>

theorem session_dispatch:
  assumes "protected r"
  shows "render r None st = SignInView
     \<and> (is_registered c (accountId u) = Resolved False \<longrightarrow>
          render r (Some u) (fst (fetchRegistered c (Some u) st)) = RegisterView)
     \<and> (is_registered c (accountId u) = Resolved True \<longrightarrow>
          render r (Some u) (fst (fetchRegistered c (Some u) st)) = content_view r)
     \<and> branch_of (render r currentUser st) =
          Some (if currentUser = None then SignInBranch
                else if registered st then ContentBranch else RegisterBranch)"
proof -
  have "branch_of (render r currentUser st) =
          Some (if currentUser = None then SignInBranch
                else if registered st then ContentBranch else RegisterBranch)"
  proof (cases currentUser)
    case None
    then show ?thesis using assms by (simp add: render_signed_out)
  next
    case (Some v)
    then show ?thesis using assms by (simp add: render_signed_in branch_of_content)
  qed
  moreover have "render r None st = SignInView"
    using assms by (rule render_signed_out)
  moreover have "is_registered c (accountId u) = Resolved False \<longrightarrow>
      render r (Some u) (fst (fetchRegistered c (Some u) st)) = RegisterView"
    using assms by (auto simp: render_signed_in fetchRegistered_def)
  moreover have "is_registered c (accountId u) = Resolved True \<longrightarrow>
      render r (Some u) (fst (fetchRegistered c (Some u) st)) = content_view r"
    using assms by (auto simp: render_signed_in fetchRegistered_def)
  ultimately show ?thesis by blast
qed

text \<open>
  The overview route, signed out, and signed in as \<open>alice\<close> with a check that answers
  \<open>false\<close> and one that answers \<open>true\<close>.
\<close>

theorem session_dispatch_witness:
  "protected OverviewRoute
   \<and> render OverviewRoute None initial_state = SignInView
   \<and> render OverviewRoute (Some alice)
        (fst (fetchRegistered (contract_answering (Resolved False)) (Some alice) initial_state))
      = RegisterView
   \<and> render OverviewRoute (Some alice)
        (fst (fetchRegistered (contract_answering (Resolved True)) (Some alice) initial_state))
      = OverviewView"
proof -
  have p: "protected OverviewRoute" by (simp add: protected_def)
  show ?thesis
    using p session_dispatch [OF p, of initial_state "contract_answering (Resolved False)" alice]
      session_dispatch [OF p, of initial_state "contract_answering (Resolved True)" alice]
    by (simp add: contract_answering_def)
qed

text \<open>
  C7, as the code has it. \<open>registered\<close> starts as \<open>false\<close> and there is no loading state:
  from the first render until the registration check settles, every protected route
  renders the register view for a user that is not null. The content view is not
  rendered before the check has fulfilled with \<open>true\<close>.
\<close>

theorem pending_check_renders_register:
  assumes "protected r" and "is_registered c (accountId u) = Pending"
  shows "fetchRegistered c (Some u) initial_state = (initial_state, None)
     \<and> render r (Some u) (fst (fetchRegistered c (Some u) initial_state)) = RegisterView
     \<and> branch_of (render r (Some u) (fst (fetchRegistered c (Some u) initial_state)))
         \<noteq> Some ContentBranch"
  using assms by (simp add: fetchRegistered_pending render_signed_in initial_state_def)

theorem pending_check_renders_register_witness:
  "protected DonateRoute
   \<and> is_registered (contract_answering Pending) (accountId alice) = Pending
   \<and> render DonateRoute (Some alice)
        (fst (fetchRegistered (contract_answering Pending) (Some alice) initial_state))
      = RegisterView"
proof -
  have p: "protected DonateRoute" by (simp add: protected_def)
  have q: "is_registered (contract_answering Pending) (accountId alice) = Pending"
    by (simp add: contract_answering_def)
  show ?thesis
    using pending_check_renders_register [OF p q] p q
    by (simp add: render_def initial_state_def)
qed

text \<open>
  C7 as stated fails: with the check of \<open>alice\<close> still pending, the index route
  renders the register branch.
\<close>

theorem register_branch_while_pending:
  "is_registered (contract_answering Pending) (accountId alice) = Pending
   \<and> branch_of (render IndexRoute (Some alice)
        (fst (fetchRegistered (contract_answering Pending) (Some alice) initial_state)))
      = Some RegisterBranch"
  by (simp add: contract_answering_def fetchRegistered_def render_def initial_state_def)

text \<open>
  C8, as the code has it. A failed registration check is an unhandled rejection that
  leaves the state as it was. After the first render every protected route therefore
  shows the register view, the same view as for a check that has fulfilled with
  \<open>false\<close>; there is no separate error or loading state.
\<close>

theorem failed_check_renders_register:
  assumes "protected r" and "is_registered c (accountId u) = Rejected"
  shows "fetchRegistered c (Some u) st = (st, Some RemoteRejection)
     \<and> render r (Some u) (fst (fetchRegistered c (Some u) initial_state)) = RegisterView
     \<and> (is_registered c' (accountId u) = Resolved False \<longrightarrow>
          render r (Some u) (fst (fetchRegistered c (Some u) initial_state))
          = render r (Some u) (fst (fetchRegistered c' (Some u) initial_state)))"
  using assms
  by (auto simp: fetchRegistered_def render_signed_in initial_state_def)

theorem failed_check_renders_register_witness:
  "protected PublishRoute
   \<and> is_registered (contract_answering Rejected) (accountId alice) = Rejected
   \<and> is_registered (contract_answering (Resolved False)) (accountId alice) = Resolved False
   \<and> fetchRegistered (contract_answering Rejected) (Some alice) initial_state
       = (initial_state, Some RemoteRejection)
   \<and> render PublishRoute (Some alice)
        (fst (fetchRegistered (contract_answering Rejected) (Some alice) initial_state))
      = RegisterView
   \<and> render PublishRoute (Some alice)
        (fst (fetchRegistered (contract_answering (Resolved False)) (Some alice) initial_state))
      = RegisterView"
proof -
  have p: "protected PublishRoute" by (simp add: protected_def)
  have q: "is_registered (contract_answering Rejected) (accountId alice) = Rejected"
    by (simp add: contract_answering_def)
  have q': "is_registered (contract_answering (Resolved False)) (accountId alice) = Resolved False"
    by (simp add: contract_answering_def)
  show ?thesis
    using failed_check_renders_register
      [OF p q, of initial_state "contract_answering (Resolved False)"] p q q'
    by (simp add: render_def initial_state_def fetchRegistered_def)
qed

text \<open>
  C8 as stated fails: after a rejected check the overview route renders the register
  branch, and the component state equals the state after an answer \<open>false\<close>.
\<close>

theorem failed_check_looks_unregistered:
  "is_registered (contract_answering Rejected) (accountId alice) = Rejected
   \<and> branch_of (render OverviewRoute (Some alice)
        (fst (fetchRegistered (contract_answering Rejected) (Some alice) initial_state)))
      = Some RegisterBranch
   \<and> fst (fetchRegistered (contract_answering Rejected) (Some alice) initial_state)
      = fst (fetchRegistered (contract_answering (Resolved False)) (Some alice) initial_state)"
  by (simp add: contract_answering_def fetchRegistered_def render_def initial_state_def)

section \<open>Credit eligibility\<close>

text \<open>
  C2. The decision shown by the credit button of a deed is \<open>AlreadyCredited\<close> when
  \<open>is_creditor\<close> holds, also for a deed the viewer wrote; otherwise \<open>SelfAuthored\<close> when
  the author is the viewer's account; otherwise \<open>Eligible\<close>. It is defined for every deed
  and viewer and depends on nothing but \<open>is_creditor\<close>, the author and the viewer's
  account.
\<close>

theorem credit_decision:
  "decision (credit_button d v) =
     Some (if is_creditor d then AlreadyCredited
           else if author d = accountId v then SelfAuthored else Eligible)
   \<and> (is_creditor d \<and> author d = accountId v \<longrightarrow>
        decision (credit_button d v) = Some AlreadyCredited)
   \<and> (is_creditor d = is_creditor d' \<and> author d = author d' \<and> accountId v = accountId v' \<longrightarrow>
        decision (credit_button d v) = decision (credit_button d' v'))"
  by (simp add: decision_def credit_button_def)

text \<open>
  A deed written by the viewer that the ledger reports as credited by the viewer.
\<close>

theorem credit_decision_witness:
  "is_creditor credited_deed_of_alice \<and> author credited_deed_of_alice = accountId alice
   \<and> decision (credit_button credited_deed_of_alice alice) = Some AlreadyCredited"
  using credit_decision [of credited_deed_of_alice alice credited_deed_of_alice alice]
  by (simp add: credited_deed_of_alice_def alice_def)

section \<open>Row partition of the feed\<close>

text \<open>
  The loop returns for every positive width, and what it returns is the partition of
  the part of the array from index \<open>i\<close> on, appended to the chunks collected so far.
\<close>

lemma chunk_loop_rows:
  "0 < len \<Longrightarrow> chunk_loop arr len i chunks = Some (chunks @ partition_rows len (drop i arr))"
proof (induction "length arr - i" arbitrary: i chunks rule: less_induct)
  case less
  show ?case
  proof (cases "i < length arr")
    case True
    have step: "length arr - (i + len) < length arr - i"
      using True less.prems by simp
    have rows: "partition_rows len (drop i arr)
                = take len (drop i arr) # partition_rows len (drop (i + len) arr)"
      using True less.prems
      by (subst partition_rows.simps) (simp add: add.commute)
    have sl: "slice arr i (i + len) = take len (drop i arr)"
      by (simp add: slice_def drop_take)
    show ?thesis
      using less.hyps [OF step less.prems, of "chunks @ [slice arr i (i + len)]"] True
      by (subst chunk_loop.simps) (simp add: rows sl)
  next
    case False
    then show ?thesis
      by (subst chunk_loop.simps) (simp add: partition_rows.simps)
  qed
qed

lemma split_is_partition:
  "0 < len \<Longrightarrow> splitArrayIntoChunksOfLen arr len = Some (partition_rows len arr)"
  by (simp add: splitArrayIntoChunksOfLen_def chunk_loop_rows)

lemma concat_partition_rows: "0 < w \<Longrightarrow> concat (partition_rows w xs) = xs"
proof (induction w xs rule: partition_rows.induct)
  case (1 w xs)
  then show ?case by (subst partition_rows.simps) auto
qed

lemma rows2_Nil: "partition_rows 2 [] = []"
  by (subst partition_rows.simps) simp

lemma rows2_single: "partition_rows 2 [x] = [[x]]"
  by (subst partition_rows.simps) (simp add: rows2_Nil)

lemma rows2_pair: "partition_rows 2 (x # y # zs) = [x, y] # partition_rows 2 zs"
  by (subst partition_rows.simps) simp

lemma rows2_empty_iff: "partition_rows 2 xs = [] \<longleftrightarrow> xs = []"
  by (induction xs rule: induct_list012) (simp_all add: rows2_Nil rows2_single rows2_pair)

lemma rows2_length: "length (partition_rows 2 xs) = (length xs + 1) div 2"
  by (induction xs rule: induct_list012) (simp_all add: rows2_Nil rows2_single rows2_pair)

lemma rows2_butlast: "\<forall>r \<in> set (butlast (partition_rows 2 xs)). length r = 2"
  by (induction xs rule: induct_list012)
     (simp_all add: rows2_Nil rows2_single rows2_pair rows2_empty_iff)

lemma rows2_last:
  "xs \<noteq> [] \<Longrightarrow> length (last (partition_rows 2 xs)) = (if odd (length xs) then 1 else 2)"
  by (induction xs rule: induct_list012)
     (simp_all add: rows2_Nil rows2_single rows2_pair rows2_empty_iff)

text \<open>
  C3. For a sequence of \<open>N\<close> deeds, \<open>splitArrayIntoChunksOfLen\<close> with width 2 returns,
  and returns \<open>ceil(N/2)\<close> rows; every row but the last has length 2, the last row has
  length 1 when \<open>N\<close> is odd and 2 otherwise; the rows concatenated in order are the
  original sequence; the empty sequence gives no row.
\<close>

theorem split_rows_of_two:
  "\<exists>rows. splitArrayIntoChunksOfLen arr 2 = Some rows
     \<and> length rows = (length arr + 1) div 2
     \<and> (\<forall>r \<in> set (butlast rows). length r = 2)
     \<and> (rows \<noteq> [] \<longrightarrow> length (last rows) = (if odd (length arr) then 1 else 2))
     \<and> concat rows = arr
     \<and> (arr = [] \<longrightarrow> rows = [])"
proof -
  have "splitArrayIntoChunksOfLen arr 2 = Some (partition_rows 2 arr)"
    by (simp add: split_is_partition)
  moreover have "length (partition_rows 2 arr) = (length arr + 1) div 2"
    by (rule rows2_length)
  moreover have "\<forall>r \<in> set (butlast (partition_rows 2 arr)). length r = 2"
    by (rule rows2_butlast)
  moreover have "partition_rows 2 arr \<noteq> [] \<longrightarrow>
      length (last (partition_rows 2 arr)) = (if odd (length arr) then 1 else 2)"
    using rows2_last [of arr] by (simp add: rows2_empty_iff)
  moreover have "concat (partition_rows 2 arr) = arr"
    by (simp add: concat_partition_rows)
  moreover have "arr = [] \<longrightarrow> partition_rows 2 arr = []"
    by (simp add: rows2_Nil)
  ultimately show ?thesis by blast
qed

text \<open>
  Three deeds give a row of two and a row of one.
\<close>

theorem split_rows_of_two_witness:
  "splitArrayIntoChunksOfLen [1, 2, 3 :: nat] 2 = Some [[1, 2], [3]]"
  using split_rows_of_two [of "[1, 2, 3 :: nat]"]
  by (simp add: split_is_partition rows2_pair rows2_single)

section \<open>Feed fetch\<close>

lemma page_args_value:
  "page_args v count =
     [(''creditor_id'', JString (accountId v)), (''from_index'', JString ''0''),
      (''limit'', JNumber count)]"
  by (simp add: page_args_def parseInt_decimal_digits)

text \<open>
  C4, as the code has it. \<open>fetchData\<close> first calls \<open>get_deeds_count\<close> with no argument,
  so the count is not filtered by viewer. With the count (an integer below \<open>10^21\<close>) it
  calls \<open>social_deeds\<close> once, with \<open>creditor_id\<close> the viewer's account, \<open>from_index\<close> the
  string \<open>"0"\<close> and \<open>limit\<close> the count. Whatever page the ledger answers, of any length,
  is stored without an error as its partition into rows of two, in the order returned.
\<close>

theorem fetchData_page:
  assumes "get_deeds_count c = Resolved count" and "count < 10 ^ 21"
    and "social_deeds c [(''creditor_id'', JString (accountId v)), (''from_index'', JString ''0''),
           (''limit'', JNumber count)] = Resolved page"
  shows "fetchData c v deeds =
           ([\<lparr>method_name = ''get_deeds_count'', args = [], gas = None, deposit = None\<rparr>,
             \<lparr>method_name = ''social_deeds'',
              args = [(''creditor_id'', JString (accountId v)), (''from_index'', JString ''0''),
                      (''limit'', JNumber count)],
              gas = None, deposit = None\<rparr>],
            partition_rows 2 page, None)
         \<and> concat (partition_rows 2 page) = page"
proof -
  have "fetchData c v deeds = ([count_call, page_call v count], partition_rows 2 page, None)"
    using assms(1,3) by (simp add: fetchData_def page_args_value split_is_partition)
  then show ?thesis
    by (simp add: count_call_def page_call_def page_args_value concat_partition_rows)
qed

text \<open>
  The ledger counts five deeds and answers with a page of four: two rows of two.
\<close>

theorem fetchData_page_witness:
  "get_deeds_count (contract_answering Pending) = Resolved 5 \<and> (5 :: nat) < 10 ^ 21
   \<and> length short_page = 4
   \<and> fetchData (contract_answering Pending) alice [] =
       ([\<lparr>method_name = ''get_deeds_count'', args = [], gas = None, deposit = None\<rparr>,
         \<lparr>method_name = ''social_deeds'',
          args = [(''creditor_id'', JString ''alice''), (''from_index'', JString ''0''),
                  (''limit'', JNumber 5)],
          gas = None, deposit = None\<rparr>],
        [[deed_of_bob, credited_deed_of_alice],
         [deed_of_bob\<lparr>deed_id := 9\<rparr>, deed_of_bob\<lparr>deed_id := 10\<rparr>]], None)"
proof -
  have c: "get_deeds_count (contract_answering Pending) = Resolved 5"
    by (simp add: contract_answering_def)
  have b: "(5 :: nat) < 10 ^ 21" by simp
  have p: "social_deeds (contract_answering Pending)
             [(''creditor_id'', JString (accountId alice)), (''from_index'', JString ''0''),
              (''limit'', JNumber 5)] = Resolved short_page"
    by (simp add: contract_answering_def)
  show ?thesis
    using fetchData_page [OF c b p, of "[]"] c
    by (simp add: alice_def short_page_def rows2_pair rows2_Nil)
qed

text \<open>
  C4 as stated fails in its first step: the count request of viewer \<open>alice\<close> carries
  no \<open>creditor_id\<close>; only the page request does.
\<close>

theorem count_request_unfiltered:
  "method_name (hd (fst (fetchData (contract_answering Pending) alice []))) = ''get_deeds_count''
   \<and> map_of (args (hd (fst (fetchData (contract_answering Pending) alice [])))) ''creditor_id''
       = None
   \<and> map_of (args (hd (tl (fst (fetchData (contract_answering Pending) alice [])))))
       ''creditor_id'' = Some (JString ''alice'')"
proof -
  have "fst (fetchData (contract_answering Pending) alice []) = [count_call, page_call alice 5]"
    by (simp add: fetchData_def contract_answering_def split_is_partition)
  then show ?thesis
    by (simp add: count_call_def page_call_def page_args_value alice_def)
qed

section \<open>Transaction notifier\<close>

lemma decodeURI_lone_percent: "decodeURI ''%'' = Inl URIError"
  by (simp add: decodeURI_def)

lemma decodeURI_rejected: "decodeURI ''User%20rejected%20transaction'' = Inr ''User rejected transaction''"
  by code_simp

lemma location_pushState: "location (pushState st u w) = u"
  by (simp add: location_def pushState_def)

lemma notifier_no_signal: "\<not> truthy error \<Longrightarrow> \<not> truthy tx \<Longrightarrow> notifier error tx s = Inr s"
  by (cases s) (simp add: notifier_def)

lemma truthy_None: "\<not> truthy None"
  by (simp add: truthy_def)

text \<open>
  C5, as the code has it. When the error prop is a non-empty string that \<open>decodeURI\<close>
  accepts, the message becomes the decoded error, whether or not a transaction id is
  present. When the error prop is null or empty and the transaction id is a non-empty
  string, the message becomes \<open>Successfully executed transaction\<close> followed by the id.
  When both are null or empty, nothing changes.
\<close>

theorem notifier_message:
  "(error = Some e \<and> e \<noteq> [] \<and> decodeURI e = Inr decoded \<longrightarrow>
      (\<exists>w'. notifier error lastTransaction (st, w) = Inr (st\<lparr>message := decoded\<rparr>, w')))
   \<and> ((error = None \<or> error = Some []) \<and> lastTransaction = Some t \<and> t \<noteq> [] \<longrightarrow>
      (\<exists>w'. notifier error lastTransaction (st, w) =
         Inr (st\<lparr>message := ''Successfully executed transaction '' @ t\<rparr>, w')))
   \<and> ((error = None \<or> error = Some []) \<and> (lastTransaction = None \<or> lastTransaction = Some [])
        \<longrightarrow> notifier error lastTransaction (st, w) = Inr (st, w))"
  by (auto simp: notifier_def truthy_def js_string_def)

text \<open>
  An encoded error together with a transaction id; a transaction id alone; no signal.
\<close>

theorem notifier_message_witness:
  "(\<exists>w'. notifier (Some ''User%20rejected%20transaction'') (Some ''9xQ'')
            (initial_state, redirect_window []) =
          Inr (initial_state\<lparr>message := ''User rejected transaction''\<rparr>, w'))
   \<and> (\<exists>w'. notifier None (Some ''9xQ'') (initial_state, redirect_window []) =
          Inr (initial_state\<lparr>message := ''Successfully executed transaction 9xQ''\<rparr>, w'))
   \<and> notifier None None (initial_state, redirect_window []) =
          Inr (initial_state, redirect_window [])"
  using notifier_message [of "Some ''User%20rejected%20transaction''" "''User%20rejected%20transaction''"
      "''User rejected transaction''" "Some ''9xQ''" initial_state "redirect_window []" "''9xQ''"]
    notifier_message [of None "''''" "''''" "Some ''9xQ''" initial_state "redirect_window []" "''9xQ''"]
    notifier_message [of None "''''" "''''" None initial_state "redirect_window []" "''''"]
  by (simp add: decodeURI_rejected)

text \<open>
  C5 as stated fails: for the error payload \<open>%\<close> together with a transaction id,
  \<open>decodeURI\<close> throws and no message is set.
\<close>

theorem malformed_error_no_message:
  "notifier (Some ''%'') (Some ''9xQ'') (initial_state, redirect_window []) = Inl URIError
   \<and> message (fst (retained (initial_state, redirect_window [])
        (notifier (Some ''%'') (Some ''9xQ'') (initial_state, redirect_window [])))) = []"
  by (simp add: notifier_def truthy_def js_string_def decodeURI_lone_percent retained_def
      initial_state_def)

text \<open>
  C6, as the code has it. The page reads the two props from its current URL; how it
  does so is a parameter \<open>rd\<close>, of which only this is assumed: a URL with neither query
  nor fragment carries no signal. When the signal read from the current URL is there
  (a non-empty error or transaction id) and the notifier completes on it, the current
  URL afterwards has neither query nor fragment and carries no signal, and the
  notifier run again on what is read from it changes nothing.
\<close>

theorem notifier_consumes_signal:
  assumes run: "notifier (fst (rd (location w))) (snd (rd (location w))) (st, w) = Inr (st', w')"
    and rd: "\<forall>u. search u = [] \<and> hash u = [] \<longrightarrow> rd u = (None, None)"
    and sig: "truthy (fst (rd (location w))) \<or> truthy (snd (rd (location w)))"
  shows "search (location w') = [] \<and> hash (location w') = []
     \<and> rd (location w') = (None, None)
     \<and> notifier (fst (rd (location w'))) (snd (rd (location w'))) (st', w') = Inr (st', w')"
proof -
  from run sig have w': "w' = pushState [] (origin_pathname (location w)) w"
    by (auto simp: notifier_def split: sum.splits if_splits)
  have empty: "search (location w') = [] \<and> hash (location w') = []"
    unfolding w' by (simp add: location_pushState origin_pathname_def)
  with rd have none: "rd (location w') = (None, None)"
    by blast
  show ?thesis
    using empty none by (simp add: notifier_no_signal truthy_None)
qed

text \<open>
  A redirect URL with a transaction id: the first load shows the message and pushes
  the URL without query; the second load is silent.
\<close>

theorem notifier_consumes_signal_witness:
  "truthy (snd (query_reader (location (redirect_window [(''transactionHashes'', ''9xQ'')]))))
   \<and> notifier None (Some ''9xQ'')
        (initial_state, redirect_window [(''transactionHashes'', ''9xQ'')])
      = Inr (initial_state\<lparr>message := ''Successfully executed transaction 9xQ''\<rparr>,
             pushState [] (origin_pathname (location (redirect_window [(''transactionHashes'', ''9xQ'')])))
               (redirect_window [(''transactionHashes'', ''9xQ'')]))
   \<and> query_reader (location
        (pushState [] (origin_pathname (location (redirect_window [(''transactionHashes'', ''9xQ'')])))
           (redirect_window [(''transactionHashes'', ''9xQ'')]))) = (None, None)
   \<and> notifier None None
        (initial_state\<lparr>message := ''Successfully executed transaction 9xQ''\<rparr>,
         pushState [] (origin_pathname (location (redirect_window [(''transactionHashes'', ''9xQ'')])))
           (redirect_window [(''transactionHashes'', ''9xQ'')]))
      = Inr (initial_state\<lparr>message := ''Successfully executed transaction 9xQ''\<rparr>,
             pushState [] (origin_pathname (location (redirect_window [(''transactionHashes'', ''9xQ'')])))
               (redirect_window [(''transactionHashes'', ''9xQ'')]))"
proof -
  have props: "query_reader (location (redirect_window [(''transactionHashes'', ''9xQ'')]))
      = (None, Some ''9xQ'')"
    by (simp add: query_reader_def location_def redirect_window_def)
  have run: "notifier
        (fst (query_reader (location (redirect_window [(''transactionHashes'', ''9xQ'')]))))
        (snd (query_reader (location (redirect_window [(''transactionHashes'', ''9xQ'')]))))
        (initial_state, redirect_window [(''transactionHashes'', ''9xQ'')])
      = Inr (initial_state\<lparr>message := ''Successfully executed transaction 9xQ''\<rparr>,
             pushState [] (origin_pathname (location (redirect_window [(''transactionHashes'', ''9xQ'')])))
               (redirect_window [(''transactionHashes'', ''9xQ'')]))"
    unfolding props by (simp add: notifier_def truthy_def js_string_def)
  have rd: "\<forall>u. search u = [] \<and> hash u = [] \<longrightarrow> query_reader u = (None, None)"
    by (simp add: query_reader_def)
  have sig: "truthy (fst (query_reader (location (redirect_window [(''transactionHashes'', ''9xQ'')]))))
      \<or> truthy (snd (query_reader (location (redirect_window [(''transactionHashes'', ''9xQ'')]))))"
    unfolding props by (simp add: truthy_def)
  show ?thesis
    using notifier_consumes_signal [OF run rd sig] run sig
    by (simp add: props truthy_None notifier_no_signal)
qed

text \<open>
  C6 as stated fails: for the error payload \<open>%\<close> the effect throws before it
  rewrites the URL, so the navigation state is retained as it was and still carries
  the signal for the next load.
\<close>

theorem malformed_error_stays_in_url:
  "query_reader (location (redirect_window [(''errorMessage'', ''%'')])) = (Some ''%'', None)
   \<and> notifier (Some ''%'') None (initial_state, redirect_window [(''errorMessage'', ''%'')])
      = Inl URIError
   \<and> retained (initial_state, redirect_window [(''errorMessage'', ''%'')])
        (notifier (Some ''%'') None (initial_state, redirect_window [(''errorMessage'', ''%'')]))
      = (initial_state, redirect_window [(''errorMessage'', ''%'')])
   \<and> map_of (search (location (snd
        (retained (initial_state, redirect_window [(''errorMessage'', ''%'')])
          (notifier (Some ''%'') None (initial_state, redirect_window [(''errorMessage'', ''%'')]))))))
        ''errorMessage'' = Some ''%''"
proof -
  have run: "notifier (Some ''%'') None (initial_state, redirect_window [(''errorMessage'', ''%'')])
      = Inl URIError"
    by (simp add: notifier_def truthy_def js_string_def decodeURI_lone_percent)
  show ?thesis
    unfolding run retained_def
    by (simp add: query_reader_def location_def redirect_window_def)
qed

section \<open>Writes to the navigation state\<close>

text \<open>
  C9, as the code has it. Both writes rebuild the URL from origin and path: origin
  and path stay, the whole query and the fragment are dropped. The notifier adds a
  history entry with an empty state object and keeps the earlier entries, the one with
  the signal among them; \<open>signOut\<close> signs the wallet out, replaces the current entry and
  keeps the earlier ones.
\<close>

theorem url_writes_keep_origin_and_path_only:
  "((truthy error \<or> truthy lastTransaction)
      \<and> notifier error lastTransaction (st, w) = Inr (st', w') \<longrightarrow>
        origin (location w') = origin (location w)
      \<and> pathname (location w') = pathname (location w)
      \<and> search (location w') = [] \<and> hash (location w') = []
      \<and> state_object (current_entry w') = []
      \<and> back_entries w' = current_entry w # back_entries w)
   \<and> fst (signOut (signedIn, w)) = False
   \<and> origin (location (snd (signOut (signedIn, w)))) = origin (location w)
   \<and> pathname (location (snd (signOut (signedIn, w)))) = pathname (location w)
   \<and> search (location (snd (signOut (signedIn, w)))) = []
   \<and> hash (location (snd (signOut (signedIn, w)))) = []
   \<and> back_entries (snd (signOut (signedIn, w))) = back_entries w"
  by (auto simp: notifier_def signOut_def location_def pushState_def location_replace_def
      origin_pathname_def split: sum.splits if_splits)

theorem url_writes_keep_origin_and_path_only_witness:
  "truthy (Some ''9xQ'')
   \<and> notifier None (Some ''9xQ'') (initial_state, redirect_window [(''transactionHashes'', ''9xQ'')])
      = Inr (initial_state\<lparr>message := ''Successfully executed transaction 9xQ''\<rparr>,
          \<lparr>back_entries = current_entry (redirect_window [(''transactionHashes'', ''9xQ'')])
              # back_entries (redirect_window [(''transactionHashes'', ''9xQ'')]),
           current_entry = \<lparr>state_object = [], entry_url =
             \<lparr>origin = ''https://deeds.example.org'', pathname = ''/overview'',
              search = [], hash = []\<rparr>\<rparr>\<rparr>)
   \<and> location (snd (signOut (True, redirect_window []))) =
        \<lparr>origin = ''https://deeds.example.org'', pathname = ''/overview'', search = [], hash = []\<rparr>"
proof -
  have t: "truthy (Some ''9xQ'')" by (simp add: truthy_def)
  have run: "notifier None (Some ''9xQ'')
        (initial_state, redirect_window [(''transactionHashes'', ''9xQ'')])
      = Inr (initial_state\<lparr>message := ''Successfully executed transaction 9xQ''\<rparr>,
          \<lparr>back_entries = current_entry (redirect_window [(''transactionHashes'', ''9xQ'')])
              # back_entries (redirect_window [(''transactionHashes'', ''9xQ'')]),
           current_entry = \<lparr>state_object = [], entry_url =
             \<lparr>origin = ''https://deeds.example.org'', pathname = ''/overview'',
              search = [], hash = []\<rparr>\<rparr>\<rparr>)"
    by (simp add: notifier_def truthy_def js_string_def pushState_def origin_pathname_def
        location_def redirect_window_def)
  have "origin (location (redirect_window [])) = ''https://deeds.example.org''"
    "pathname (location (redirect_window [])) = ''/overview''"
    by (simp_all add: location_def redirect_window_def)
  then show ?thesis
    using url_writes_keep_origin_and_path_only [of None "Some ''9xQ''" initial_state
        "redirect_window [(''transactionHashes'', ''9xQ'')]"
        "initial_state\<lparr>message := ''Successfully executed transaction 9xQ''\<rparr>"
        "\<lparr>back_entries = current_entry (redirect_window [(''transactionHashes'', ''9xQ'')])
              # back_entries (redirect_window [(''transactionHashes'', ''9xQ'')]),
           current_entry = \<lparr>state_object = [], entry_url =
             \<lparr>origin = ''https://deeds.example.org'', pathname = ''/overview'',
              search = [], hash = []\<rparr>\<rparr>\<rparr>" True] t run
      url_writes_keep_origin_and_path_only [of None None initial_state "redirect_window []"
        initial_state "redirect_window []" True]
    by (cases "location (snd (signOut (True, redirect_window [])))") simp
qed

text \<open>
  C9 as stated fails: the parameter \<open>lang\<close> and the fragment, which are no part of
  the signal, are gone after the notifier's write, and after \<open>signOut\<close>.
\<close>

theorem purge_drops_unrelated_parameter:
  "map_of (search (location (redirect_window [(''transactionHashes'', ''9xQ'')]))) ''lang''
     = Some ''en''
   \<and> hash (location (redirect_window [(''transactionHashes'', ''9xQ'')])) = ''top''
   \<and> map_of (search (location (snd (retained
        (initial_state, redirect_window [(''transactionHashes'', ''9xQ'')])
        (notifier None (Some ''9xQ'')
           (initial_state, redirect_window [(''transactionHashes'', ''9xQ'')])))))) ''lang''
     = None
   \<and> hash (location (snd (retained
        (initial_state, redirect_window [(''transactionHashes'', ''9xQ'')])
        (notifier None (Some ''9xQ'')
           (initial_state, redirect_window [(''transactionHashes'', ''9xQ'')]))))) = []
   \<and> map_of (search (location (snd (signOut (True, redirect_window []))))) ''lang'' = None"
  by (simp add: notifier_def truthy_def js_string_def pushState_def origin_pathname_def
      location_def redirect_window_def retained_def signOut_def location_replace_def)

section \<open>Credit handler\<close>

lemma gas_value: "BOATLOAD_OF_GAS = ''30000000000000''"
  unfolding BOATLOAD_OF_GAS_def by (simp add: decimal_digits.simps digit_char_values)

lemma deposit_value: "credit_deposit = ''2000000000000000000000''"
  unfolding credit_deposit_def by (simp add: decimal_digits.simps digit_char_values)

lemma deposit_yocto: "parseInt_string ''2000000000000000000000'' = Some (2 * 10 ^ 21)"
  by (simp add: parseInt_string_def is_digit_def digits_value_def digit_value_def)

lemma decimal_digits_8: "decimal_digits 8 = ''8''"
  by (simp add: decimal_digits.simps digit_char_values)

text \<open>
  C10. For every deed with \<open>is_creditor\<close> set, \<open>onCredit\<close> calls nothing and sets the
  message to \<open>You already credited deed #\<close> followed by the id as the runtime prints
  it. For every other deed it makes one call, \<open>credit\<close>, with the id of the deed, the
  gas \<open>30000000000000\<close> and the deposit \<open>2000000000000000000000\<close>, that is \<open>2 * 10^21\<close>
  yoctoNEAR (0.002 NEAR), and leaves the message alone.
\<close>

theorem onCredit_calls:
  "(is_creditor d \<longrightarrow>
      onCredit idToString d st =
        ([], st\<lparr>message := ''You already credited deed #'' @ idToString (deed_id d)\<rparr>))
   \<and> (\<not> is_creditor d \<longrightarrow>
      onCredit idToString d st =
        ([\<lparr>method_name = ''credit'', args = [(''id'', JNumber (deed_id d))],
           gas = Some ''30000000000000'', deposit = Some ''2000000000000000000000''\<rparr>], st))
   \<and> parseInt_string credit_deposit = Some (2 * 10 ^ 21)"
  by (simp add: onCredit_def gas_value deposit_value deposit_yocto)

text \<open>
  A deed already credited, with id 8, and a deed not yet credited, with id 7. Both ids
  are below \<open>2^53\<close>, where the runtime prints the decimal digits.
\<close>

theorem onCredit_calls_witness:
  "is_creditor credited_deed_of_alice
   \<and> onCredit decimal_digits credited_deed_of_alice initial_state =
       ([], initial_state\<lparr>message := ''You already credited deed #8''\<rparr>)
   \<and> \<not> is_creditor deed_of_bob
   \<and> onCredit decimal_digits deed_of_bob initial_state =
       ([\<lparr>method_name = ''credit'', args = [(''id'', JNumber 7)],
          gas = Some ''30000000000000'', deposit = Some ''2000000000000000000000''\<rparr>], initial_state)"
  using onCredit_calls [of credited_deed_of_alice decimal_digits initial_state]
    onCredit_calls [of deed_of_bob decimal_digits initial_state]
  by (simp add: credited_deed_of_alice_def deed_of_bob_def decimal_digits_8)

end
